theory Spec2Isabelle
  imports Main "HOL-Library.Word"
begin

section \<open>JavaScript values used by the branding-assets client\<close>

text \<open>
  A JavaScript string is a sequence of 16-bit code units.  String literals of the source
  are written \<open>str ''...''\<close>; a character outside ASCII is given by its code unit.
\<close>

type_synonym jsstring = "16 word list"

definition str :: "string \<Rightarrow> jsstring" where
  "str s = map of_char s"

text \<open>
  \<open>String.prototype.trim\<close> removes leading and trailing code units that are WhiteSpace or
  LineTerminator in ECMAScript: TAB, LF, VT, FF, CR, SPACE, NBSP, U+1680, U+2000..U+200A,
  U+2028, U+2029, U+202F, U+205F, U+3000 and U+FEFF.
\<close>

definition isWhiteSpace :: "16 word \<Rightarrow> bool" where
  "isWhiteSpace c =
     (c = 0x9 \<or> c = 0xA \<or> c = 0xB \<or> c = 0xC \<or> c = 0xD \<or> c = 0x20 \<or> c = 0xA0
      \<or> c = 0x1680 \<or> (0x2000 \<le> c \<and> c \<le> 0x200A) \<or> c = 0x2028 \<or> c = 0x2029
      \<or> c = 0x202F \<or> c = 0x205F \<or> c = 0x3000 \<or> c = 0xFEFF)"

definition trim :: "jsstring \<Rightarrow> jsstring" where
  "trim s = rev (dropWhile isWhiteSpace (rev (dropWhile isWhiteSpace s)))"

text \<open>Truthiness of a value of type \<open>string | undefined\<close>: a non-empty string.\<close>

definition truthy :: "jsstring option \<Rightarrow> bool" where
  "truthy v = (case v of None \<Rightarrow> False | Some s \<Rightarrow> s \<noteq> [])"

text \<open>
  A thrown value: an \<open>Error\<close> object with its message (also the subclasses the runtime
  raises: the TypeError of a failed fetch, the SyntaxError of a body that is not JSON), or
  any other thrown value.
\<close>

datatype js_error = Error (message: jsstring) | Thrown jsstring

section \<open>Types of the service\<close>

datatype BrandingAssetType = Logo | Footer

text \<open>The string a \<open>BrandingAssetType\<close> is: \<open>'logo'\<close> or \<open>'footer'\<close>.\<close>

fun typeName :: "BrandingAssetType \<Rightarrow> jsstring" where
  "typeName Logo = str ''logo''"
| "typeName Footer = str ''footer''"

record BrandingAsset =
  assetType :: BrandingAssetType
  contentType :: "jsstring option"
  fileName :: "jsstring option"
  text' :: "jsstring option"
  url :: "jsstring option"

datatype File = File jsstring "8 word list"

record UploadAssetRequest =
  req_assetType :: BrandingAssetType
  req_file :: "File option"
  req_text :: "jsstring option"

section \<open>The collaborators: network, identity, configuration, console\<close>

datatype form_value = FormText jsstring | FormFile File

record request =
  input :: jsstring
  http_method :: jsstring
  headers :: "(jsstring \<times> jsstring) list"
  body :: "(jsstring \<times> form_value) list option"

text \<open>
  A response of \<open>fetch\<close>: the status line, and what \<open>response.text()\<close> and
  \<open>response.json()\<close> settle to (either may reject).  The body parsed as JSON is a
  \<open>BrandingAsset\<close> or \<open>null\<close>, as the return types of the service declare.
  \<open>response.ok\<close> is true exactly for a status in 200..299.
\<close>

record response =
  status :: nat
  statusText :: jsstring
  text_result :: "js_error + jsstring"
  json_result :: "js_error + BrandingAsset option"

definition ok :: "response \<Rightarrow> bool" where
  "ok r = (200 \<le> status r \<and> status r \<le> 299)"

text \<open>
  The environment of the module: \<open>getApiBase()\<close> and \<open>getAssetBase()\<close> of EnvironmentService,
  \<open>UserService.getToken()\<close> (a string, \<open>undefined\<close>, or a throw), and the network behind
  \<open>fetch\<close> (a response, or a rejection).
\<close>

record env =
  getApiBase :: jsstring
  getAssetBase :: jsstring
  getToken :: "js_error + jsstring option"
  fetch :: "request \<Rightarrow> js_error + response"

datatype level = LOG | WARN | ERROR

datatype console_arg = S jsstring | E js_error

text \<open>The observable effects: the requests sent to the network and the console, in order.\<close>

record world =
  requests :: "request list"
  console :: "(level \<times> console_arg list) list"

definition console_print :: "level \<Rightarrow> console_arg list \<Rightarrow> world \<Rightarrow> world" where
  "console_print l args w = w\<lparr>console := console w @ [(l, args)]\<rparr>"

definition do_fetch :: "env \<Rightarrow> request \<Rightarrow> world \<Rightarrow> (js_error + response) \<times> world" where
  "do_fetch env rq w = (fetch env rq, w\<lparr>requests := requests w @ [rq]\<rparr>)"

section \<open>BrandingAssetsService\<close>

definition baseUrl :: "env \<Rightarrow> jsstring" where
  "baseUrl env = getApiBase env @ str ''/api/administration/branding/assets''"

definition getRequest :: "env \<Rightarrow> BrandingAssetType \<Rightarrow> request" where
  "getRequest env t =
     \<lparr>input = baseUrl env @ str ''/'' @ typeName t, http_method = str ''GET'',
      headers = [(str ''Content-Type'', str ''application/json'')], body = None\<rparr>"

text \<open>
  \<open>getAssetByType\<close>: 404 is \<open>null\<close>; any other status outside 200..299 throws; the body is
  parsed otherwise.  Whatever is thrown inside is logged with \<open>console.error\<close> and rethrown.
\<close>

definition getAssetByType ::
  "env \<Rightarrow> BrandingAssetType \<Rightarrow> world \<Rightarrow> (js_error + BrandingAsset option) \<times> world" where
  "getAssetByType env t w =
     (let (r, w1) = do_fetch env (getRequest env t) w;
          res = (case r of
                   Inl e \<Rightarrow> Inl e
                 | Inr rsp \<Rightarrow>
                     if status rsp = 404 then Inr None
                     else if \<not> ok rsp then
                       Inl (Error (str ''Failed to fetch '' @ typeName t @ str '' asset: ''
                                   @ statusText rsp))
                     else json_result rsp)
      in case res of
           Inl e \<Rightarrow>
             (Inl e, console_print ERROR
                       [S (str ''Error fetching '' @ typeName t @ str '' asset:''), E e] w1)
         | Inr a \<Rightarrow> (Inr a, w1))"

text \<open>
  The multipart form of \<open>uploadAsset\<close> and \<open>updateAsset\<close>: \<open>AssetType\<close>, then \<open>File\<close> when
  a file is given, then \<open>Text\<close> when the text is truthy.
\<close>

definition formData :: "UploadAssetRequest \<Rightarrow> (jsstring \<times> form_value) list" where
  "formData rq =
     [(str ''AssetType'', FormText (typeName (req_assetType rq)))]
     @ (case req_file rq of None \<Rightarrow> [] | Some f \<Rightarrow> [(str ''File'', FormFile f)])
     @ (case req_text rq of
          None \<Rightarrow> []
        | Some t \<Rightarrow> if t \<noteq> [] then [(str ''Text'', FormText t)] else [])"

text \<open>The template literal \<open>`Bearer ${UserService.getToken()}`\<close>.\<close>

definition bearer :: "jsstring option \<Rightarrow> jsstring" where
  "bearer token = str ''Bearer '' @ (case token of None \<Rightarrow> str ''undefined'' | Some t \<Rightarrow> t)"

text \<open>The requests the three write operations hand to \<open>fetch\<close>.\<close>

definition postRequest :: "env \<Rightarrow> jsstring option \<Rightarrow> UploadAssetRequest \<Rightarrow> request" where
  "postRequest env token rq =
     \<lparr>input = baseUrl env, http_method = str ''POST'',
      headers = [(str ''authorization'', bearer token)], body = Some (formData rq)\<rparr>"

definition putRequest :: "env \<Rightarrow> jsstring option \<Rightarrow> UploadAssetRequest \<Rightarrow> request" where
  "putRequest env token rq =
     \<lparr>input = baseUrl env, http_method = str ''PUT'',
      headers = [(str ''authorization'', bearer token)], body = Some (formData rq)\<rparr>"

definition deleteRequest :: "env \<Rightarrow> jsstring option \<Rightarrow> BrandingAssetType \<Rightarrow> request" where
  "deleteRequest env token t =
     \<lparr>input = baseUrl env @ str ''/'' @ typeName t, http_method = str ''DELETE'',
      headers = [(str ''authorization'', bearer token)], body = None\<rparr>"

text \<open>
  What the write operations throw on a response that is not ok: the body text is read
  (that may reject) and put after the status text into the message of a plain \<open>Error\<close>.
\<close>

definition write_failure :: "jsstring \<Rightarrow> response \<Rightarrow> js_error" where
  "write_failure prefix rsp =
     (case text_result rsp of
        Inl e \<Rightarrow> e
      | Inr errorText \<Rightarrow> Error (prefix @ statusText rsp @ str '' - '' @ errorText))"

definition uploadAsset ::
  "env \<Rightarrow> UploadAssetRequest \<Rightarrow> world \<Rightarrow> (js_error + BrandingAsset option) \<times> world" where
  "uploadAsset env rq w =
     (let (res, w2) =
            (case getToken env of
               Inl e \<Rightarrow> (Inl e, w)
             | Inr token \<Rightarrow>
                 (let (r, w1) = do_fetch env (postRequest env token rq) w
                  in (case r of
                        Inl e \<Rightarrow> Inl e
                      | Inr rsp \<Rightarrow>
                          if \<not> ok rsp then
                            Inl (write_failure (str ''Failed to upload asset: '') rsp)
                          else json_result rsp, w1)))
      in case res of
           Inl e \<Rightarrow>
             (Inl e, console_print ERROR [S (str ''Error uploading branding asset:''), E e] w2)
         | Inr a \<Rightarrow> (Inr a, w2))"

definition updateAsset ::
  "env \<Rightarrow> UploadAssetRequest \<Rightarrow> world \<Rightarrow> (js_error + BrandingAsset option) \<times> world" where
  "updateAsset env rq w =
     (let (res, w2) =
            (case getToken env of
               Inl e \<Rightarrow> (Inl e, w)
             | Inr token \<Rightarrow>
                 (let (r, w1) = do_fetch env (putRequest env token rq) w
                  in (case r of
                        Inl e \<Rightarrow> Inl e
                      | Inr rsp \<Rightarrow>
                          if \<not> ok rsp then
                            Inl (write_failure (str ''Failed to update asset: '') rsp)
                          else json_result rsp, w1)))
      in case res of
           Inl e \<Rightarrow>
             (Inl e, console_print ERROR [S (str ''Error updating branding asset:''), E e] w2)
         | Inr a \<Rightarrow> (Inr a, w2))"

definition deleteAsset ::
  "env \<Rightarrow> BrandingAssetType \<Rightarrow> world \<Rightarrow> (js_error + unit) \<times> world" where
  "deleteAsset env t w =
     (let (res, w2) =
            (case getToken env of
               Inl e \<Rightarrow> (Inl e, w)
             | Inr token \<Rightarrow>
                 (let (r, w1) = do_fetch env (deleteRequest env token t) w
                  in (case r of
                        Inl e \<Rightarrow> Inl e
                      | Inr rsp \<Rightarrow>
                          if \<not> ok rsp then
                            Inl (write_failure (str ''Failed to delete asset: '') rsp)
                          else Inr (), w1)))
      in case res of
           Inl e \<Rightarrow>
             (Inl e, console_print ERROR
                       [S (str ''Error deleting '' @ typeName t @ str '' asset:''), E e] w2)
         | Inr u \<Rightarrow> (Inr u, w2))"

text \<open>The fallbacks written into the helpers of the service.\<close>

definition serviceLogoFallback :: jsstring where
  "serviceLogoFallback = str ''/assets/logo/cx-logo.svg''"

text \<open>The footer literal starts with the copyright sign, code unit \<open>0xA9\<close>.\<close>

definition footerFallback :: jsstring where
  "footerFallback = 0xA9 # str '' 2024 Eclipse Tractus-X. All rights reserved.''"

text \<open>
  \<open>typeof v === 'string' && v.trim() !== '' ? v : fallback\<close>, for \<open>v\<close> the field read
  through optional chaining from the fetched asset (or \<open>null\<close>).
\<close>

definition usable_or :: "jsstring option \<Rightarrow> jsstring \<Rightarrow> jsstring" where
  "usable_or v fallback =
     (case v of None \<Rightarrow> fallback | Some s \<Rightarrow> if trim s \<noteq> [] then s else fallback)"

definition getLogoUrl :: "env \<Rightarrow> world \<Rightarrow> (js_error + jsstring) \<times> world" where
  "getLogoUrl env w =
     (let (r, w1) = getAssetByType env Logo w
      in case r of
           Inr logoAsset \<Rightarrow>
             (Inr (usable_or (case logoAsset of None \<Rightarrow> None | Some a \<Rightarrow> url a)
                     serviceLogoFallback), w1)
         | Inl e \<Rightarrow>
             (Inr serviceLogoFallback,
              console_print WARN
                [S (str ''Failed to fetch logo asset, using fallback:''), E e] w1))"

definition getFooterText :: "env \<Rightarrow> world \<Rightarrow> (js_error + jsstring) \<times> world" where
  "getFooterText env w =
     (let (r, w1) = getAssetByType env Footer w
      in case r of
           Inr footerAsset \<Rightarrow>
             (Inr (usable_or (case footerAsset of None \<Rightarrow> None | Some a \<Rightarrow> text' a)
                     footerFallback), w1)
         | Inl e \<Rightarrow>
             (Inr footerFallback,
              console_print WARN
                [S (str ''Failed to fetch footer asset, using fallback:''), E e] w1))"

definition hasManagementPermission :: "env \<Rightarrow> world \<Rightarrow> bool \<times> world" where
  "hasManagementPermission env w =
     (case getToken env of
        Inr token \<Rightarrow> (truthy token, w)
      | Inl e \<Rightarrow>
          (False, console_print ERROR
                    [S (str ''Error checking branding assets permission:''), E e] w))"

section \<open>The hook useBrandingAssets\<close>

record BrandingAssetsState =
  logoUrl :: jsstring
  footerText :: jsstring
  loading :: bool
  error :: "jsstring option"

text \<open>The fallback logo of the hook: \<open>`${getAssetBase()}/images/logos/cx-text.svg`\<close>.\<close>

definition hookLogoFallback :: "env \<Rightarrow> jsstring" where
  "hookLogoFallback env = getAssetBase env @ str ''/images/logos/cx-text.svg''"

text \<open>The initial values of the four \<open>useState\<close> cells.\<close>

definition useBrandingAssets_init :: "env \<Rightarrow> BrandingAssetsState" where
  "useBrandingAssets_init env =
     \<lparr>logoUrl = hookLogoFallback env, footerText = footerFallback,
      loading = True, error = None\<rparr>"

text \<open>An element of the array \<open>Promise.allSettled\<close> resolves to.\<close>

datatype 'a settled = Fulfilled 'a | Rejected js_error

fun settle :: "js_error + 'a \<Rightarrow> 'a settled" where
  "settle (Inr v) = Fulfilled v"
| "settle (Inl e) = Rejected e"

text \<open>
  The two branches "Handle logo asset" and "Handle footer asset" of \<open>refreshAssets\<close>.  The
  remote field is adopted when the promise is fulfilled and the field, read through
  optional chaining, is truthy.
\<close>

definition handleLogo ::
  "env \<Rightarrow> BrandingAsset option settled \<Rightarrow> world \<times> BrandingAssetsState
     \<Rightarrow> world \<times> BrandingAssetsState" where
  "handleLogo env logoAsset ws =
     (case ws of (w, st) \<Rightarrow>
        (case logoAsset of
           Fulfilled (Some a) \<Rightarrow>
             (case url a of
                Some u \<Rightarrow>
                  if u \<noteq> [] then (w, st\<lparr>logoUrl := u\<rparr>)
                  else (w, st\<lparr>logoUrl := hookLogoFallback env\<rparr>)
              | None \<Rightarrow> (w, st\<lparr>logoUrl := hookLogoFallback env\<rparr>))
         | Fulfilled None \<Rightarrow> (w, st\<lparr>logoUrl := hookLogoFallback env\<rparr>)
         | Rejected reason \<Rightarrow>
             (console_print WARN
                [S (str ''Failed to load custom logo, using fallback:''), E reason] w,
              st\<lparr>logoUrl := hookLogoFallback env\<rparr>)))"

definition handleFooter ::
  "BrandingAsset option settled \<Rightarrow> world \<times> BrandingAssetsState
     \<Rightarrow> world \<times> BrandingAssetsState" where
  "handleFooter footerAsset ws =
     (case ws of (w, st) \<Rightarrow>
        (let useFallback = (\<lambda>w'. (console_print LOG
                [S (str ''Main hook - Using fallback footer text'')] w',
                st\<lparr>footerText := footerFallback\<rparr>))
         in case footerAsset of
           Fulfilled (Some a) \<Rightarrow>
             (case text' a of
                Some t \<Rightarrow>
                  if t \<noteq> [] then
                    (console_print LOG
                       [S (str ''Main hook - Footer text loaded:''), S t] w,
                     st\<lparr>footerText := t\<rparr>)
                  else useFallback w
              | None \<Rightarrow> useFallback w)
         | Fulfilled None \<Rightarrow> useFallback w
         | Rejected reason \<Rightarrow>
             (case useFallback w of (w', st') \<Rightarrow>
                (console_print WARN
                   [S (str ''Failed to load custom footer text, using fallback:''), E reason] w',
                 st'))))"

text \<open>
  The \<open>try\<close> block of \<open>refreshAssets\<close>.  The two fetches are started in the order logo,
  footer, and \<open>Promise.allSettled\<close> turns each rejection into a value, so no statement of
  the block throws: the result is always \<open>Inr\<close>.  The two calls run concurrently in the
  source; here the effects of the first are recorded before those of the second.  The outcome
  of a call does not depend on the history, so the state cells do not depend on that order.
\<close>

definition refreshAssets_try ::
  "env \<Rightarrow> world \<times> BrandingAssetsState \<Rightarrow> js_error + world \<times> BrandingAssetsState" where
  "refreshAssets_try env ws =
     (case ws of (w, st) \<Rightarrow>
        (let (r1, w1) = getAssetByType env Logo w;
             (r2, w2) = getAssetByType env Footer w1;
             logoAsset = settle r1;
             footerAsset = settle r2
         in Inr (handleFooter footerAsset (handleLogo env logoAsset (w2, st)))))"

text \<open>The \<open>catch\<close> block: the message of the error becomes the aggregate error.\<close>

definition refreshAssets_catch ::
  "env \<Rightarrow> js_error \<Rightarrow> world \<times> BrandingAssetsState \<Rightarrow> world \<times> BrandingAssetsState" where
  "refreshAssets_catch env err ws =
     (case ws of (w, st) \<Rightarrow>
        (let errorMessage =
               (case err of Error m \<Rightarrow> m | Thrown v \<Rightarrow> str ''Failed to load branding assets'')
         in (console_print ERROR [S (str ''Error loading branding assets:''), E err] w,
             st\<lparr>error := Some errorMessage, logoUrl := hookLogoFallback env,
                footerText := footerFallback\<rparr>)))"

definition refreshAssets ::
  "env \<Rightarrow> world \<times> BrandingAssetsState \<Rightarrow> world \<times> BrandingAssetsState" where
  "refreshAssets env ws =
     (case ws of (w, st) \<Rightarrow>
        (let st0 = st\<lparr>loading := True, error := None\<rparr>;
             (w', st') = (case refreshAssets_try env (w, st0) of
                            Inr r \<Rightarrow> r
                          | Inl err \<Rightarrow> refreshAssets_catch env err (w, st0))
         in (w', st'\<lparr>loading := False\<rparr>)))"

section \<open>Concrete scenarios\<close>

text \<open>An empty history, a portal with a given identity and network, and some responses.\<close>

definition w0 :: world where
  "w0 = \<lparr>requests = [], console = []\<rparr>"

definition portal :: "(js_error + jsstring option) \<Rightarrow> (request \<Rightarrow> js_error + response) \<Rightarrow> env" where
  "portal tok net =
     \<lparr>getApiBase = str ''https://portal.example'', getAssetBase = str ''https://assets.example'',
      getToken = tok, fetch = net\<rparr>"

definition reply :: "nat \<Rightarrow> jsstring \<Rightarrow> jsstring \<Rightarrow> BrandingAsset option \<Rightarrow> response" where
  "reply st stText txt j =
     \<lparr>status = st, statusText = stText, text_result = Inr txt, json_result = Inr j\<rparr>"

definition logoAsset0 :: "jsstring \<Rightarrow> BrandingAsset" where
  "logoAsset0 u =
     \<lparr>assetType = Logo, contentType = Some (str ''image/png''),
      fileName = Some (str ''logo.png''), text' = None, url = Some u\<rparr>"

definition footerAsset0 :: "jsstring \<Rightarrow> BrandingAsset" where
  "footerAsset0 t =
     \<lparr>assetType = Footer, contentType = None, fileName = None, text' = Some t, url = None\<rparr>"

text \<open>A backend that answers each read with the stored asset of the type asked for.\<close>

definition net_assets :: "jsstring \<Rightarrow> jsstring \<Rightarrow> request \<Rightarrow> js_error + response" where
  "net_assets u t rq =
     (if input rq = str ''https://portal.example/api/administration/branding/assets/logo''
      then Inr (reply 200 (str ''OK'') [] (Some (logoAsset0 u)))
      else Inr (reply 200 (str ''OK'') [] (Some (footerAsset0 t))))"

text \<open>The same backend when the request for the logo fails in the network.\<close>

definition net_logo_down :: "jsstring \<Rightarrow> request \<Rightarrow> js_error + response" where
  "net_logo_down t rq =
     (if input rq = str ''https://portal.example/api/administration/branding/assets/logo''
      then Inl (Error (str ''Failed to fetch''))
      else Inr (reply 200 (str ''OK'') [] (Some (footerAsset0 t))))"

text \<open>A backend that answers every request with the same status, status text and body.\<close>

definition net_status :: "nat \<Rightarrow> jsstring \<Rightarrow> jsstring \<Rightarrow> request \<Rightarrow> js_error + response" where
  "net_status st stText txt rq = Inr (reply st stText txt None)"



definition footerUpload :: UploadAssetRequest where
  "footerUpload =
     \<lparr>req_assetType = Footer, req_file = None, req_text = Some (str ''Copyright 2025'')\<rparr>"

section \<open>Auxiliary facts\<close>

lemma str_Nil [simp]: "str [] = []"
  by (simp add: str_def)

lemma str_Cons_ne [simp]: "str (c # cs) \<noteq> []"
  by (simp add: str_def)

lemma dropWhile_all_imp_Nil:
  assumes "\<forall>x\<in>set (dropWhile P xs). P x"
  shows "dropWhile P xs = []"
proof (rule ccontr)
  assume ne: "dropWhile P xs \<noteq> []"
  then have "\<not> P (hd (dropWhile P xs))" by (rule hd_dropWhile)
  moreover from ne have "hd (dropWhile P xs) \<in> set (dropWhile P xs)" by simp
  ultimately show False using assms by blast
qed

lemma trim_eq_Nil_iff: "trim s = [] \<longleftrightarrow> (\<forall>c\<in>set s. isWhiteSpace c)"
proof
  assume "trim s = []"
  then have "\<forall>x\<in>set (dropWhile isWhiteSpace s). isWhiteSpace x"
    by (simp add: trim_def)
  then have "dropWhile isWhiteSpace s = []" by (rule dropWhile_all_imp_Nil)
  then show "\<forall>c\<in>set s. isWhiteSpace c" by simp
next
  assume "\<forall>c\<in>set s. isWhiteSpace c"
  then have h: "dropWhile isWhiteSpace s = []" by simp
  show "trim s = []" unfolding trim_def h by simp
qed

lemma trim_nonempty_imp: "trim s \<noteq> [] \<Longrightarrow> s \<noteq> []"
  by (auto simp: trim_def)

lemma fallbacks_nonempty:
  "hookLogoFallback env \<noteq> []" "footerFallback \<noteq> []" "serviceLogoFallback \<noteq> []"
  by (simp_all add: hookLogoFallback_def footerFallback_def serviceLogoFallback_def)

lemma usable_or_nonempty: "fb \<noteq> [] \<Longrightarrow> usable_or v fb \<noteq> []"
  by (auto simp: usable_or_def dest: trim_nonempty_imp split: option.splits)

lemma getAssetByType_fst:
  "fst (getAssetByType env t w) = fst (getAssetByType env t w')"
  by (simp add: getAssetByType_def do_fetch_def Let_def split: sum.splits)

text \<open>The state cells after the two handlers.\<close>

lemma handleLogo_state:
  "snd (handleLogo env r ws) =
     (snd ws)\<lparr>logoUrl := (case r of
                       Fulfilled (Some a) \<Rightarrow>
                         (case url a of
                            Some u \<Rightarrow> if u \<noteq> [] then u else hookLogoFallback env
                          | None \<Rightarrow> hookLogoFallback env)
                     | _ \<Rightarrow> hookLogoFallback env)\<rparr>"
  by (cases ws) (simp add: handleLogo_def split: settled.splits option.splits)

lemma handleFooter_state:
  "snd (handleFooter r ws) =
     (snd ws)\<lparr>footerText := (case r of
                       Fulfilled (Some a) \<Rightarrow>
                         (case text' a of
                            Some t \<Rightarrow> if t \<noteq> [] then t else footerFallback
                          | None \<Rightarrow> footerFallback)
                     | _ \<Rightarrow> footerFallback)\<rparr>"
  by (cases ws) (simp add: handleFooter_def Let_def split: settled.splits option.splits)

lemma refreshAssets_try_Inr:
  "\<exists>r. refreshAssets_try env ws = Inr r"
  by (cases ws) (simp add: refreshAssets_try_def Let_def split: prod.splits)

lemma refreshAssets_state:
  "snd (refreshAssets env (w, st)) =
     st\<lparr>loading := False, error := None,
        logoUrl := (case settle (fst (getAssetByType env Logo w)) of
                       Fulfilled (Some a) \<Rightarrow>
                         (case url a of
                            Some u \<Rightarrow> if u \<noteq> [] then u else hookLogoFallback env
                          | None \<Rightarrow> hookLogoFallback env)
                     | _ \<Rightarrow> hookLogoFallback env),
        footerText := (case settle (fst (getAssetByType env Footer w)) of
                       Fulfilled (Some a) \<Rightarrow>
                         (case text' a of
                            Some t \<Rightarrow> if t \<noteq> [] then t else footerFallback
                          | None \<Rightarrow> footerFallback)
                     | _ \<Rightarrow> footerFallback)\<rparr>"
proof -
  have r2: "fst (getAssetByType env Footer (snd (getAssetByType env Logo w))) =
            fst (getAssetByType env Footer w)"
    by (rule getAssetByType_fst)
  show ?thesis
    by (simp add: refreshAssets_def refreshAssets_try_def Let_def split_beta
        handleFooter_state handleLogo_state r2)
qed


lemma refreshAssets_world:
  "fst (refreshAssets env (w, st)) =
     fst (handleFooter (settle (fst (getAssetByType env Footer w)))
            (handleLogo env (settle (fst (getAssetByType env Logo w)))
               (snd (getAssetByType env Footer (snd (getAssetByType env Logo w))),
                st\<lparr>loading := True, error := None\<rparr>)))"
proof -
  have r2: "fst (getAssetByType env Footer (snd (getAssetByType env Logo w))) =
            fst (getAssetByType env Footer w)"
    by (rule getAssetByType_fst)
  show ?thesis
    by (simp add: refreshAssets_def refreshAssets_try_def Let_def split_beta r2)
qed

lemma handleLogo_console_rejected:
  "console (fst (handleLogo env (Rejected r) ws)) =
     console (fst ws) @ [(WARN, [S (str ''Failed to load custom logo, using fallback:''), E r])]"
  by (cases ws) (simp add: handleLogo_def console_print_def)

lemma handleFooter_console_mono:
  "set (console (fst ws)) \<subseteq> set (console (fst (handleFooter r ws)))"
  by (cases ws)
     (auto simp: handleFooter_def console_print_def Let_def split: settled.splits option.splits)

lemma handleFooter_console_rejected:
  "(WARN, [S (str ''Failed to load custom footer text, using fallback:''), E r])
     \<in> set (console (fst (handleFooter (Rejected r) ws)))"
  by (cases ws) (simp add: handleFooter_def console_print_def Let_def)

section \<open>Single-type read\<close>

text \<open>
  C6: \<open>getAssetByType\<close> maps a 404 response to the absent value \<open>null\<close> without raising
  (and without logging) an error: only the request is added to the history.  For every other
  status outside 200..299 it throws an \<open>Error\<close> whose message names the type and the
  status text.
\<close>

theorem getAssetByType_404_absent_other_error:
  assumes "fetch env (getRequest env t) = Inr rsp"
  shows "(status rsp = 404 \<longrightarrow>
            getAssetByType env t w = (Inr None, w\<lparr>requests := requests w @ [getRequest env t]\<rparr>))
       \<and> (status rsp \<noteq> 404 \<and> \<not> ok rsp \<longrightarrow>
            fst (getAssetByType env t w) =
              Inl (Error (str ''Failed to fetch '' @ typeName t @ str '' asset: '' @ statusText rsp)))"
  using assms by (simp add: getAssetByType_def do_fetch_def Let_def)

theorem getAssetByType_404_absent_other_error_witness:
  "fst (getAssetByType (portal (Inr None) (net_status 404 (str ''Not Found'') [])) Logo w0) = Inr None
   \<and> console (snd (getAssetByType (portal (Inr None) (net_status 404 (str ''Not Found'') [])) Logo w0)) = []
   \<and> fst (getAssetByType (portal (Inr None) (net_status 503 (str ''Service Unavailable'') [])) Footer w0)
       = Inl (Error (str ''Failed to fetch footer asset: Service Unavailable''))"
proof -
  let ?e1 = "portal (Inr None) (net_status 404 (str ''Not Found'') [])"
  let ?e2 = "portal (Inr None) (net_status 503 (str ''Service Unavailable'') [])"
  have h1: "fetch ?e1 (getRequest ?e1 Logo) = Inr (reply 404 (str ''Not Found'') [] None)"
    by (simp add: portal_def net_status_def)
  have h2: "fetch ?e2 (getRequest ?e2 Footer) = Inr (reply 503 (str ''Service Unavailable'') [] None)"
    by (simp add: portal_def net_status_def)
  show ?thesis
    using getAssetByType_404_absent_other_error [OF h1, of w0]
      getAssetByType_404_absent_other_error [OF h2, of w0]
    by (simp add: reply_def ok_def w0_def str_def)
qed

section \<open>The resolution round\<close>

text \<open>
  C2: after a resolution round, whatever the two fetches did, the logo URL and the footer
  text are non-empty strings, each either the fallback or the field of the asset that was
  fetched, and \<open>loading\<close> is false.  The \<open>catch\<close> block, too, leaves the two fallbacks.
\<close>

theorem refreshAssets_display_values_concrete:
  "(let st' = snd (refreshAssets env (w, st)) in
      logoUrl st' \<noteq> [] \<and> footerText st' \<noteq> [] \<and> \<not> loading st'
      \<and> (logoUrl st' = hookLogoFallback env
           \<or> (\<exists>a. fst (getAssetByType env Logo w) = Inr (Some a) \<and> url a = Some (logoUrl st')))
      \<and> (footerText st' = footerFallback
           \<or> (\<exists>a. fst (getAssetByType env Footer w) = Inr (Some a) \<and> text' a = Some (footerText st'))))
   \<and> (let st'' = snd (refreshAssets_catch env err (w, st)) in
        logoUrl st'' = hookLogoFallback env \<and> footerText st'' = footerFallback
        \<and> logoUrl st'' \<noteq> [] \<and> footerText st'' \<noteq> [])"
proof -
  have a: "logoUrl (snd (refreshAssets env (w, st))) \<noteq> []"
    by (cases "fst (getAssetByType env Logo w)")
       (auto simp: refreshAssets_state fallbacks_nonempty split: option.splits)
  have b: "footerText (snd (refreshAssets env (w, st))) \<noteq> []"
    by (cases "fst (getAssetByType env Footer w)")
       (auto simp: refreshAssets_state fallbacks_nonempty split: option.splits)
  have c: "\<not> loading (snd (refreshAssets env (w, st)))"
    by (simp add: refreshAssets_state)
  have d: "logoUrl (snd (refreshAssets env (w, st))) = hookLogoFallback env
           \<or> (\<exists>a. fst (getAssetByType env Logo w) = Inr (Some a)
                 \<and> url a = Some (logoUrl (snd (refreshAssets env (w, st)))))"
    by (cases "fst (getAssetByType env Logo w)")
       (auto simp: refreshAssets_state split: option.splits)
  have e: "footerText (snd (refreshAssets env (w, st))) = footerFallback
           \<or> (\<exists>a. fst (getAssetByType env Footer w) = Inr (Some a)
                 \<and> text' a = Some (footerText (snd (refreshAssets env (w, st)))))"
    by (cases "fst (getAssetByType env Footer w)")
       (auto simp: refreshAssets_state split: option.splits)
  have f: "logoUrl (snd (refreshAssets_catch env err (w, st))) = hookLogoFallback env"
          "footerText (snd (refreshAssets_catch env err (w, st))) = footerFallback"
    by (simp_all add: refreshAssets_catch_def Let_def)
  show ?thesis
    using a b c d e f by (simp add: Let_def fallbacks_nonempty)
qed

theorem refreshAssets_display_values_concrete_witness:
  "logoUrl (snd (refreshAssets (portal (Inr None) (net_status 500 [] []))
                   (w0, useBrandingAssets_init (portal (Inr None) (net_status 500 [] [])))))
     = str ''https://assets.example/images/logos/cx-text.svg''
   \<and> footerText (snd (refreshAssets (portal (Inr None) (net_status 500 [] []))
                   (w0, useBrandingAssets_init (portal (Inr None) (net_status 500 [] [])))))
     = footerFallback"
proof -
  let ?e = "portal (Inr None) (net_status 500 [] [])"
  have r1: "fst (getAssetByType ?e Logo w0) \<noteq> Inr (Some a)" for a
    by (simp add: getAssetByType_def do_fetch_def Let_def portal_def net_status_def reply_def ok_def)
  have r2: "fst (getAssetByType ?e Footer w0) \<noteq> Inr (Some a)" for a
    by (simp add: getAssetByType_def do_fetch_def Let_def portal_def net_status_def reply_def ok_def)
  show ?thesis
    using refreshAssets_display_values_concrete
            [of ?e w0 "useBrandingAssets_init ?e" "Error []"] r1 r2
    by (simp add: Let_def hookLogoFallback_def portal_def str_def)
qed


text \<open>
  C4: when the logo fetch rejects and the footer fetch fulfills with an asset whose text is a
  non-empty string, the round settles with the fallback logo, the remote footer text,
  \<open>loading\<close> false and no aggregate error.
\<close>

theorem refreshAssets_logo_rejected_footer_fulfilled:
  assumes "fst (getAssetByType env Logo w) = Inl reason"
    and "fst (getAssetByType env Footer w) = Inr (Some a)"
    and "text' a = Some V" and "V \<noteq> []"
  shows "logoUrl (snd (refreshAssets env (w, st))) = hookLogoFallback env
       \<and> footerText (snd (refreshAssets env (w, st))) = V
       \<and> loading (snd (refreshAssets env (w, st))) = False
       \<and> error (snd (refreshAssets env (w, st))) = None"
  using assms by (simp add: refreshAssets_state)

theorem refreshAssets_logo_rejected_footer_fulfilled_witness:
  "fst (getAssetByType (portal (Inr None) (net_logo_down (str ''Copyright 2025''))) Logo w0)
     = Inl (Error (str ''Failed to fetch''))
   \<and> footerText (snd (refreshAssets (portal (Inr None) (net_logo_down (str ''Copyright 2025'')))
        (w0, useBrandingAssets_init (portal (Inr None) (net_logo_down (str ''Copyright 2025''))))))
     = str ''Copyright 2025''
   \<and> logoUrl (snd (refreshAssets (portal (Inr None) (net_logo_down (str ''Copyright 2025'')))
        (w0, useBrandingAssets_init (portal (Inr None) (net_logo_down (str ''Copyright 2025''))))))
     = str ''https://assets.example/images/logos/cx-text.svg''
   \<and> \<not> loading (snd (refreshAssets (portal (Inr None) (net_logo_down (str ''Copyright 2025'')))
        (w0, useBrandingAssets_init (portal (Inr None) (net_logo_down (str ''Copyright 2025''))))))"
proof -
  let ?e = "portal (Inr None) (net_logo_down (str ''Copyright 2025''))"
  have h1: "fst (getAssetByType ?e Logo w0) = Inl (Error (str ''Failed to fetch''))"
    by (simp add: getAssetByType_def getRequest_def baseUrl_def do_fetch_def Let_def portal_def
        net_logo_down_def str_def)
  have h2: "fst (getAssetByType ?e Footer w0) = Inr (Some (footerAsset0 (str ''Copyright 2025'')))"
    by (simp add: getAssetByType_def getRequest_def baseUrl_def do_fetch_def Let_def portal_def
        net_logo_down_def reply_def ok_def str_def)
  have h3: "text' (footerAsset0 (str ''Copyright 2025'')) = Some (str ''Copyright 2025'')"
    by (simp add: footerAsset0_def)
  have h4: "str ''Copyright 2025'' \<noteq> []"
    by simp
  show ?thesis
    using refreshAssets_logo_rejected_footer_fulfilled
            [OF h1 h2 h3 h4, of "useBrandingAssets_init ?e"] h1
    by (simp add: hookLogoFallback_def portal_def str_def)
qed

text \<open>
  C5: a remote value \<open>V\<close> that is not empty and not whitespace only is displayed as it is,
  code unit for code unit, by the resolution round and by the helpers of the service, for the
  logo (field \<open>url\<close>) and for the footer (field \<open>text\<close>).
\<close>

theorem remote_value_displayed_verbatim:
  assumes "V \<noteq> []" and "\<not> (\<forall>c\<in>set V. isWhiteSpace c)"
  shows "(fst (getAssetByType env Logo w) = Inr (Some a) \<and> url a = Some V \<longrightarrow>
            logoUrl (snd (refreshAssets env (w, st))) = V \<and> fst (getLogoUrl env w) = Inr V)
       \<and> (fst (getAssetByType env Footer w) = Inr (Some a) \<and> text' a = Some V \<longrightarrow>
            footerText (snd (refreshAssets env (w, st))) = V \<and> fst (getFooterText env w) = Inr V)"
proof -
  from assms(2) have t: "trim V \<noteq> []" by (simp add: trim_eq_Nil_iff)
  have l: "fst (getLogoUrl env w) = Inr V"
    if "fst (getAssetByType env Logo w) = Inr (Some a)" "url a = Some V"
    using that t by (simp add: getLogoUrl_def usable_or_def split_beta)
  have f: "fst (getFooterText env w) = Inr V"
    if "fst (getAssetByType env Footer w) = Inr (Some a)" "text' a = Some V"
    using that t by (simp add: getFooterText_def usable_or_def split_beta)
  show ?thesis
    using assms(1) l f by (simp add: refreshAssets_state)
qed

theorem remote_value_displayed_verbatim_witness:
  "logoUrl (snd (refreshAssets
       (portal (Inr None) (net_assets (str ''https://cdn.example/logo.png'') (str '' (c) 2025 '')))
       (w0, useBrandingAssets_init
          (portal (Inr None) (net_assets (str ''https://cdn.example/logo.png'') (str '' (c) 2025 ''))))))
     = str ''https://cdn.example/logo.png''
   \<and> fst (getFooterText
       (portal (Inr None) (net_assets (str ''https://cdn.example/logo.png'') (str '' (c) 2025 ''))) w0)
     = Inr (str '' (c) 2025 '')"
proof -
  let ?e = "portal (Inr None) (net_assets (str ''https://cdn.example/logo.png'') (str '' (c) 2025 ''))"
  have n1: "str ''https://cdn.example/logo.png'' \<noteq> []" and n2: "str '' (c) 2025 '' \<noteq> []"
    by simp_all
  have t1: "\<not> (\<forall>c\<in>set (str ''https://cdn.example/logo.png''). isWhiteSpace c)"
    by (simp add: str_def isWhiteSpace_def)
  have t2: "\<not> (\<forall>c\<in>set (str '' (c) 2025 ''). isWhiteSpace c)"
    by (simp add: str_def isWhiteSpace_def)
  have h1: "fst (getAssetByType ?e Logo w0) = Inr (Some (logoAsset0 (str ''https://cdn.example/logo.png'')))"
    by (simp add: getAssetByType_def getRequest_def baseUrl_def do_fetch_def Let_def portal_def
        net_assets_def reply_def ok_def str_def)
  have h2: "fst (getAssetByType ?e Footer w0) = Inr (Some (footerAsset0 (str '' (c) 2025 '')))"
    by (simp add: getAssetByType_def getRequest_def baseUrl_def do_fetch_def Let_def portal_def
        net_assets_def reply_def ok_def str_def)
  show ?thesis
    using remote_value_displayed_verbatim
            [OF n1 t1, of ?e w0 "logoAsset0 (str ''https://cdn.example/logo.png'')"
               "useBrandingAssets_init ?e"]
          remote_value_displayed_verbatim
            [OF n2 t2, of ?e w0 "footerAsset0 (str '' (c) 2025 '')" "useBrandingAssets_init ?e"]
          h1 h2
    by (simp add: logoAsset0_def footerAsset0_def)
qed

text \<open>
  C7: a resolution round never sets the aggregate error, whatever the two fetches do.  A
  rejected fetch gives the fallback of its type and one \<open>console.warn\<close> entry that carries the
  reason.  The aggregate error is written by the \<open>catch\<close> block only, from the error caught
  there; the \<open>try\<close> block, in which every rejection has become a value, does not throw.
\<close>

theorem refreshAssets_rejection_logged_not_aggregated:
  "error (snd (refreshAssets env (w, st))) = None
   \<and> (fst (getAssetByType env Logo w) = Inl r \<longrightarrow>
        logoUrl (snd (refreshAssets env (w, st))) = hookLogoFallback env
        \<and> (WARN, [S (str ''Failed to load custom logo, using fallback:''), E r])
            \<in> set (console (fst (refreshAssets env (w, st)))))
   \<and> (fst (getAssetByType env Footer w) = Inl r \<longrightarrow>
        footerText (snd (refreshAssets env (w, st))) = footerFallback
        \<and> (WARN, [S (str ''Failed to load custom footer text, using fallback:''), E r])
            \<in> set (console (fst (refreshAssets env (w, st)))))
   \<and> (\<exists>res. refreshAssets_try env (w, st) = Inr res)
   \<and> error (snd (refreshAssets_catch env err (w, st)))
        = Some (case err of Error m \<Rightarrow> m | Thrown v \<Rightarrow> str ''Failed to load branding assets'')"
proof -
  have a: "error (snd (refreshAssets env (w, st))) = None"
    by (simp add: refreshAssets_state)
  have b: "(WARN, [S (str ''Failed to load custom logo, using fallback:''), E r])
            \<in> set (console (fst (refreshAssets env (w, st))))"
    if "fst (getAssetByType env Logo w) = Inl r"
  proof -
    let ?ws = "handleLogo env (Rejected r)
                 (snd (getAssetByType env Footer (snd (getAssetByType env Logo w))),
                  st\<lparr>loading := True, error := None\<rparr>)"
    have "(WARN, [S (str ''Failed to load custom logo, using fallback:''), E r])
            \<in> set (console (fst ?ws))"
      by (simp add: handleLogo_console_rejected)
    then show ?thesis
      using handleFooter_console_mono [of ?ws "settle (fst (getAssetByType env Footer w))"] that
      by (auto simp: refreshAssets_world)
  qed
  have c: "(WARN, [S (str ''Failed to load custom footer text, using fallback:''), E r])
            \<in> set (console (fst (refreshAssets env (w, st))))"
    if "fst (getAssetByType env Footer w) = Inl r"
    using that by (simp add: refreshAssets_world handleFooter_console_rejected)
  have d: "error (snd (refreshAssets_catch env err (w, st)))
        = Some (case err of Error m \<Rightarrow> m | Thrown v \<Rightarrow> str ''Failed to load branding assets'')"
    by (simp add: refreshAssets_catch_def Let_def)
  show ?thesis
    using a b c d refreshAssets_try_Inr [of env "(w, st)"] by (simp add: refreshAssets_state)
qed

theorem refreshAssets_rejection_logged_not_aggregated_witness:
  "error (snd (refreshAssets (portal (Inr None) (net_status 500 (str ''Internal Server Error'') []))
        (w0, useBrandingAssets_init
               (portal (Inr None) (net_status 500 (str ''Internal Server Error'') [])))))
     = None
   \<and> (WARN, [S (str ''Failed to load custom logo, using fallback:''),
              E (Error (str ''Failed to fetch logo asset: Internal Server Error''))])
       \<in> set (console (fst (refreshAssets
             (portal (Inr None) (net_status 500 (str ''Internal Server Error'') []))
             (w0, useBrandingAssets_init
                    (portal (Inr None) (net_status 500 (str ''Internal Server Error'') []))))))
   \<and> (WARN, [S (str ''Failed to load custom footer text, using fallback:''),
              E (Error (str ''Failed to fetch footer asset: Internal Server Error''))])
       \<in> set (console (fst (refreshAssets
             (portal (Inr None) (net_status 500 (str ''Internal Server Error'') []))
             (w0, useBrandingAssets_init
                    (portal (Inr None) (net_status 500 (str ''Internal Server Error'') []))))))"
proof -
  let ?e = "portal (Inr None) (net_status 500 (str ''Internal Server Error'') [])"
  have h1: "fst (getAssetByType ?e Logo w0)
              = Inl (Error (str ''Failed to fetch logo asset: Internal Server Error''))"
    by (simp add: getAssetByType_def do_fetch_def Let_def portal_def net_status_def reply_def
        ok_def str_def)
  have h2: "fst (getAssetByType ?e Footer w0)
              = Inl (Error (str ''Failed to fetch footer asset: Internal Server Error''))"
    by (simp add: getAssetByType_def do_fetch_def Let_def portal_def net_status_def reply_def
        ok_def str_def)
  show ?thesis
    using refreshAssets_rejection_logged_not_aggregated
            [of ?e w0 "useBrandingAssets_init ?e"
                "Error (str ''Failed to fetch logo asset: Internal Server Error'')" "Thrown []"]
          refreshAssets_rejection_logged_not_aggregated
            [of ?e w0 "useBrandingAssets_init ?e"
                "Error (str ''Failed to fetch footer asset: Internal Server Error'')" "Thrown []"]
          h1 h2
    by simp
qed

section \<open>The helpers of the service\<close>

text \<open>
  C10: \<open>getLogoUrl\<close> and \<open>getFooterText\<close> never reject and never return the empty string.
  They return the built-in fallback when the fetch throws, and when it yields nothing usable:
  \<open>null\<close>, an asset without the field, or a field that is empty or whitespace only.
\<close>

theorem helpers_total_nonempty:
  "(\<exists>s. fst (getLogoUrl env w) = Inr s \<and> s \<noteq> [])
   \<and> (\<exists>s. fst (getFooterText env w) = Inr s \<and> s \<noteq> [])
   \<and> (fst (getAssetByType env Logo w) = Inl e \<longrightarrow>
        fst (getLogoUrl env w) = Inr serviceLogoFallback)
   \<and> (fst (getAssetByType env Footer w) = Inl e \<longrightarrow>
        fst (getFooterText env w) = Inr footerFallback)
   \<and> (fst (getAssetByType env Logo w) = Inr v
        \<and> (case v of None \<Rightarrow> True
            | Some a \<Rightarrow> (case url a of None \<Rightarrow> True | Some u \<Rightarrow> \<forall>c\<in>set u. isWhiteSpace c)) \<longrightarrow>
        fst (getLogoUrl env w) = Inr serviceLogoFallback)
   \<and> (fst (getAssetByType env Footer w) = Inr v
        \<and> (case v of None \<Rightarrow> True
            | Some a \<Rightarrow> (case text' a of None \<Rightarrow> True | Some u \<Rightarrow> \<forall>c\<in>set u. isWhiteSpace c)) \<longrightarrow>
        fst (getFooterText env w) = Inr footerFallback)"
proof -
  have l: "fst (getLogoUrl env w) =
             Inr (case fst (getAssetByType env Logo w) of
                    Inl e \<Rightarrow> serviceLogoFallback
                  | Inr v \<Rightarrow> usable_or (case v of None \<Rightarrow> None | Some a \<Rightarrow> url a)
                              serviceLogoFallback)"
    by (simp add: getLogoUrl_def split_beta split: sum.splits)
  have f: "fst (getFooterText env w) =
             Inr (case fst (getAssetByType env Footer w) of
                    Inl e \<Rightarrow> footerFallback
                  | Inr v \<Rightarrow> usable_or (case v of None \<Rightarrow> None | Some a \<Rightarrow> text' a)
                              footerFallback)"
    by (simp add: getFooterText_def split_beta split: sum.splits)
  have l1: "\<exists>s. fst (getLogoUrl env w) = Inr s \<and> s \<noteq> []"
    unfolding l by (simp add: usable_or_nonempty fallbacks_nonempty split: sum.splits)
  have f1: "\<exists>s. fst (getFooterText env w) = Inr s \<and> s \<noteq> []"
    unfolding f by (simp add: usable_or_nonempty fallbacks_nonempty split: sum.splits)
  have u: "usable_or x fb = fb"
    if "case x of None \<Rightarrow> True | Some u \<Rightarrow> \<forall>c\<in>set u. isWhiteSpace c" for x fb
    using that by (simp add: usable_or_def trim_eq_Nil_iff split: option.splits)
  have l2: "fst (getLogoUrl env w) = Inr serviceLogoFallback"
    if "fst (getAssetByType env Logo w) = Inr v"
       "case v of None \<Rightarrow> True
        | Some a \<Rightarrow> (case url a of None \<Rightarrow> True | Some u \<Rightarrow> \<forall>c\<in>set u. isWhiteSpace c)"
    unfolding l using that by (auto intro!: u split: option.splits)
  have f2: "fst (getFooterText env w) = Inr footerFallback"
    if "fst (getAssetByType env Footer w) = Inr v"
       "case v of None \<Rightarrow> True
        | Some a \<Rightarrow> (case text' a of None \<Rightarrow> True | Some u \<Rightarrow> \<forall>c\<in>set u. isWhiteSpace c)"
    unfolding f using that by (auto intro!: u split: option.splits)
  show ?thesis
    using l1 f1 l2 f2 by (simp add: l f)
qed

theorem helpers_total_nonempty_witness:
  "fst (getLogoUrl (portal (Inr None) (net_status 500 [] [])) w0)
     = Inr (str ''/assets/logo/cx-logo.svg'')
   \<and> fst (getFooterText (portal (Inr None) (net_status 500 [] [])) w0) = Inr footerFallback
   \<and> fst (getLogoUrl (portal (Inr None) (net_assets (str ''  '') [])) w0)
       = Inr (str ''/assets/logo/cx-logo.svg'')
   \<and> fst (getFooterText (portal (Inr None) (net_assets (str ''  '') [])) w0) = Inr footerFallback"
proof -
  let ?d = "portal (Inr None) (net_status 500 [] [])"
  let ?e = "portal (Inr None) (net_assets (str ''  '') [])"
  have d1: "fst (getAssetByType ?d Logo w0) = Inl (Error (str ''Failed to fetch logo asset: ''))"
    by (simp add: getAssetByType_def do_fetch_def Let_def portal_def net_status_def reply_def
        ok_def str_def)
  have d2: "fst (getAssetByType ?d Footer w0) = Inl (Error (str ''Failed to fetch footer asset: ''))"
    by (simp add: getAssetByType_def do_fetch_def Let_def portal_def net_status_def reply_def
        ok_def str_def)
  have h1: "fst (getAssetByType ?e Logo w0) = Inr (Some (logoAsset0 (str ''  '')))"
    by (simp add: getAssetByType_def getRequest_def baseUrl_def do_fetch_def Let_def portal_def
        net_assets_def reply_def ok_def str_def)
  have h2: "fst (getAssetByType ?e Footer w0) = Inr (Some (footerAsset0 []))"
    by (simp add: getAssetByType_def getRequest_def baseUrl_def do_fetch_def Let_def portal_def
        net_assets_def reply_def ok_def str_def)
  have h3: "\<forall>c\<in>set (str ''  ''). isWhiteSpace c"
    by (simp add: str_def isWhiteSpace_def)
  show ?thesis
    using helpers_total_nonempty [of ?d w0 "Error (str ''Failed to fetch logo asset: '')" None]
          helpers_total_nonempty [of ?d w0 "Error (str ''Failed to fetch footer asset: '')" None]
          helpers_total_nonempty [of ?e w0 "Error []" "Some (logoAsset0 (str ''  ''))"]
          helpers_total_nonempty [of ?e w0 "Error []" "Some (footerAsset0 [])"]
          d1 d2 h1 h2 h3
    by (simp add: serviceLogoFallback_def footerAsset0_def logoAsset0_def)
qed

section \<open>Permission check\<close>

text \<open>
  C9: \<open>hasManagementPermission\<close> is true exactly when \<open>getToken\<close> returns a non-empty string;
  nothing else (no role) is looked at.  When \<open>getToken\<close> throws, the result is false and the
  error is logged.
\<close>

theorem hasManagementPermission_iff_token:
  "fst (hasManagementPermission env w) = (\<exists>t. getToken env = Inr (Some t) \<and> t \<noteq> [])
   \<and> (getToken env = Inl e \<longrightarrow>
        hasManagementPermission env w =
          (False, console_print ERROR
                    [S (str ''Error checking branding assets permission:''), E e] w))"
  by (auto simp: hasManagementPermission_def truthy_def split: sum.splits option.splits)

theorem hasManagementPermission_iff_token_witness:
  "fst (hasManagementPermission (portal (Inr (Some (str ''eyJhbGciOi''))) (net_status 200 [] [])) w0)
   \<and> \<not> fst (hasManagementPermission (portal (Inr None) (net_status 200 [] [])) w0)
   \<and> \<not> fst (hasManagementPermission (portal (Inr (Some [])) (net_status 200 [] [])) w0)
   \<and> \<not> fst (hasManagementPermission
               (portal (Inl (Error (str ''keycloak not initialised''))) (net_status 200 [] [])) w0)"
  using hasManagementPermission_iff_token
          [of "portal (Inr (Some (str ''eyJhbGciOi''))) (net_status 200 [] [])" w0 "Error []"]
        hasManagementPermission_iff_token
          [of "portal (Inr None) (net_status 200 [] [])" w0 "Error []"]
        hasManagementPermission_iff_token
          [of "portal (Inr (Some [])) (net_status 200 [] [])" w0 "Error []"]
        hasManagementPermission_iff_token
          [of "portal (Inl (Error (str ''keycloak not initialised''))) (net_status 200 [] [])" w0
              "Error (str ''keycloak not initialised'')"]
  by (simp add: portal_def)


section \<open>Write operations\<close>


lemma write_results:
  assumes "getToken env = Inr token"
  shows "fst (uploadAsset env rq w) =
           (case fetch env (postRequest env token rq) of
              Inl e \<Rightarrow> Inl e
            | Inr rsp \<Rightarrow> if ok rsp then json_result rsp
                        else Inl (write_failure (str ''Failed to upload asset: '') rsp))"
    and "fst (updateAsset env rq w) =
           (case fetch env (putRequest env token rq) of
              Inl e \<Rightarrow> Inl e
            | Inr rsp \<Rightarrow> if ok rsp then json_result rsp
                        else Inl (write_failure (str ''Failed to update asset: '') rsp))"
    and "fst (deleteAsset env t w) =
           (case fetch env (deleteRequest env token t) of
              Inl e \<Rightarrow> Inl e
            | Inr rsp \<Rightarrow> if ok rsp then Inr ()
                        else Inl (write_failure (str ''Failed to delete asset: '') rsp))"
  using assms
  by (simp_all add: uploadAsset_def updateAsset_def deleteAsset_def do_fetch_def
      Let_def split: sum.splits)




text \<open>
  C8, as stated, fails: a 401 response and a 500 response with the same status text and body
  make \<open>uploadAsset\<close> throw the very same error, so an authorization failure cannot be told
  from any other; and the message thrown for a 400 response is not the backend's message but
  a longer string that ends with it.
\<close>

theorem write_error_kinds_counterexample:
  "fst (uploadAsset (portal (Inr (Some (str ''tok''))) (net_status 401 [] (str ''denied'')))
          footerUpload w0)
     = fst (uploadAsset (portal (Inr (Some (str ''tok''))) (net_status 500 [] (str ''denied'')))
          footerUpload w0)
   \<and> fst (uploadAsset (portal (Inr (Some (str ''tok'')))
                        (net_status 400 (str ''Bad Request'') (str ''Text too long'')))
          footerUpload w0)
     = Inl (Error (str ''Failed to upload asset: Bad Request - Text too long''))
   \<and> str ''Failed to upload asset: Bad Request - Text too long'' \<noteq> str ''Text too long''"
  by (simp add: uploadAsset_def write_failure_def do_fetch_def Let_def portal_def net_status_def
      reply_def ok_def str_def)

text \<open>
  C8, amended: every response of a write operation with a status outside 200..299, whatever
  the status, makes the operation throw a plain \<open>Error\<close> when the body text can be read; its
  message is the operation's prefix, the status text, \<open>" - "\<close>, and then the body text of
  the response unchanged.  The status code is not part of the error.
\<close>

theorem write_failure_is_plain_error:
  assumes "getToken env = Inr token" and "\<not> ok rsp" and "text_result rsp = Inr errorText"
  shows "(fetch env (postRequest env token rq) = Inr rsp \<longrightarrow>
            fst (uploadAsset env rq w) =
              Inl (Error (str ''Failed to upload asset: '' @ statusText rsp @ str '' - '' @ errorText)))
       \<and> (fetch env (putRequest env token rq) = Inr rsp \<longrightarrow>
            fst (updateAsset env rq w) =
              Inl (Error (str ''Failed to update asset: '' @ statusText rsp @ str '' - '' @ errorText)))
       \<and> (fetch env (deleteRequest env token t) = Inr rsp \<longrightarrow>
            fst (deleteAsset env t w) =
              Inl (Error (str ''Failed to delete asset: '' @ statusText rsp @ str '' - '' @ errorText)))"
  using assms(2,3) write_results [OF assms(1)] by (simp add: write_failure_def)

theorem write_failure_is_plain_error_witness:
  "fst (uploadAsset (portal (Inr (Some (str ''tok''))) (net_status 403 (str ''Forbidden'') (str ''no role'')))
          footerUpload w0)
     = Inl (Error (str ''Failed to upload asset: Forbidden - no role''))
   \<and> fst (updateAsset (portal (Inr (Some (str ''tok''))) (net_status 403 (str ''Forbidden'') (str ''no role'')))
          footerUpload w0)
     = Inl (Error (str ''Failed to update asset: Forbidden - no role''))
   \<and> fst (deleteAsset (portal (Inr (Some (str ''tok''))) (net_status 403 (str ''Forbidden'') (str ''no role'')))
          Logo w0)
     = Inl (Error (str ''Failed to delete asset: Forbidden - no role''))"
proof -
  let ?e = "portal (Inr (Some (str ''tok''))) (net_status 403 (str ''Forbidden'') (str ''no role''))"
  let ?r = "reply 403 (str ''Forbidden'') (str ''no role'') None"
  have h1: "getToken ?e = Inr (Some (str ''tok''))"
    by (simp add: portal_def)
  have h2: "\<not> ok ?r"
    by (simp add: ok_def reply_def)
  have h3: "text_result ?r = Inr (str ''no role'')"
    by (simp add: reply_def)
  have h4: "fetch ?e (postRequest ?e (Some (str ''tok'')) footerUpload) = Inr ?r"
           "fetch ?e (putRequest ?e (Some (str ''tok'')) footerUpload) = Inr ?r"
           "fetch ?e (deleteRequest ?e (Some (str ''tok'')) Logo) = Inr ?r"
    by (simp_all add: portal_def net_status_def)
  show ?thesis
    using write_failure_is_plain_error [OF h1 h2 h3, of footerUpload w0 Logo] h4
    by (simp add: reply_def str_def)
qed

section \<open>Whitespace-only remote values\<close>

text \<open>
  C1 at a whitespace-only value: the backend stores the logo URL and the footer text
  \<open>"   "\<close> (three spaces).  The helpers of the service fall back, the resolution round adopts
  the three spaces for both.
\<close>

theorem refreshAssets_adopts_whitespace_only:
  "trim (str ''   '') = []
   \<and> fst (getLogoUrl (portal (Inr None) (net_assets (str ''   '') (str ''   ''))) w0)
       = Inr serviceLogoFallback
   \<and> fst (getFooterText (portal (Inr None) (net_assets (str ''   '') (str ''   ''))) w0)
       = Inr footerFallback
   \<and> logoUrl (snd (refreshAssets (portal (Inr None) (net_assets (str ''   '') (str ''   '')))
        (w0, useBrandingAssets_init (portal (Inr None) (net_assets (str ''   '') (str ''   ''))))))
       = str ''   ''
   \<and> footerText (snd (refreshAssets (portal (Inr None) (net_assets (str ''   '') (str ''   '')))
        (w0, useBrandingAssets_init (portal (Inr None) (net_assets (str ''   '') (str ''   ''))))))
       = str ''   ''
   \<and> hookLogoFallback (portal (Inr None) (net_assets (str ''   '') (str ''   ''))) \<noteq> str ''   ''
   \<and> footerFallback \<noteq> str ''   ''"
proof -
  let ?e = "portal (Inr None) (net_assets (str ''   '') (str ''   ''))"
  have t: "trim (str ''   '') = []"
    by (simp add: trim_eq_Nil_iff str_def isWhiteSpace_def)
  have h1: "fst (getAssetByType ?e Logo w0) = Inr (Some (logoAsset0 (str ''   '')))"
    by (simp add: getAssetByType_def getRequest_def baseUrl_def do_fetch_def Let_def portal_def
        net_assets_def reply_def ok_def str_def)
  have h2: "fst (getAssetByType ?e Footer w0) = Inr (Some (footerAsset0 (str ''   '')))"
    by (simp add: getAssetByType_def getRequest_def baseUrl_def do_fetch_def Let_def portal_def
        net_assets_def reply_def ok_def str_def)
  have l: "fst (getLogoUrl ?e w0) = Inr serviceLogoFallback"
    using h1 t by (simp add: getLogoUrl_def usable_or_def split_beta logoAsset0_def)
  have f: "fst (getFooterText ?e w0) = Inr footerFallback"
    using h2 t by (simp add: getFooterText_def usable_or_def split_beta footerAsset0_def)
  have r: "logoUrl (snd (refreshAssets ?e (w0, useBrandingAssets_init ?e))) = str ''   ''"
          "footerText (snd (refreshAssets ?e (w0, useBrandingAssets_init ?e))) = str ''   ''"
    using h1 h2 by (simp_all add: refreshAssets_state logoAsset0_def footerAsset0_def)
  have n: "hookLogoFallback ?e \<noteq> str ''   ''" "footerFallback \<noteq> str ''   ''"
    by (simp_all add: hookLogoFallback_def footerFallback_def portal_def str_def)
  show ?thesis
    using t l f r n by simp
qed

end
